theory Spec2Isabelle
  imports Main "HOL-Library.Word" "HOL-Library.Sublist"
begin

section \<open>JavaScript values used by the catalog engine\<close>

text \<open>
  A JavaScript string is a sequence of UTF-16 code units; \<open>length\<close>, \<open>slice\<close>, \<open>split\<close> and
  \<open>trim\<close> all work on code units. The source's string literals are ASCII, so \<open>jstr\<close> embeds
  them unit by unit.
\<close>

type_synonym jschar = "16 word"
type_synonym jsstring = "jschar list"

definition jstr :: "string \<Rightarrow> jsstring" where
  "jstr s = map of_char s"

text \<open>
  A property read \<open>row.k\<close> on a \<open>Record<string, string>\<close> gives the stored string, or
  \<open>undefined\<close> when the object has no such key: the values the engine handles at run time
  are strings and \<open>undefined\<close>.
\<close>

datatype jsval = Undefined | Str jsstring

text \<open>A method call on \<open>undefined\<close> throws a TypeError; nothing else in the engine can throw.\<close>

datatype error = TypeError

definition bind_err :: "error + 'a \<Rightarrow> ('a \<Rightarrow> error + 'b) \<Rightarrow> error + 'b" where
  "bind_err m f = (case m of Inl e \<Rightarrow> Inl e | Inr v \<Rightarrow> f v)"

fun map_err :: "('a \<Rightarrow> error + 'b) \<Rightarrow> 'a list \<Rightarrow> error + 'b list" where
  "map_err f [] = Inr []"
| "map_err f (x # xs) =
     bind_err (f x) (\<lambda>y. bind_err (map_err f xs) (\<lambda>ys. Inr (y # ys)))"

type_synonym obj = "jsstring \<rightharpoonup> jsval"
type_synonym CatalogRow = obj

text \<open>\<open>row.k\<close> for a key written as an identifier (or \<open>row["k"]\<close>) in the source.\<close>

definition getProp :: "obj \<Rightarrow> string \<Rightarrow> jsval" where
  "getProp ob k = (case ob (jstr k) of None \<Rightarrow> Undefined | Some v \<Rightarrow> v)"

text \<open>\<open>Boolean(v)\<close>: \<open>undefined\<close> and the empty string are falsy, every other string is truthy.\<close>

fun truthy :: "jsval \<Rightarrow> bool" where
  "truthy Undefined = False"
| "truthy (Str s) = (s \<noteq> [])"

text \<open>\<open>a || b\<close>\<close>

definition js_or :: "jsval \<Rightarrow> jsval \<Rightarrow> jsval" where
  "js_or a b = (if truthy a then a else b)"

text \<open>\<open>String(v)\<close>, also the conversion a template literal applies to \<open>${v}\<close>.\<close>

fun toString :: "jsval \<Rightarrow> jsstring" where
  "toString Undefined = jstr ''undefined''"
| "toString (Str s) = s"

text \<open>
  \<open>String.prototype.trim\<close> strips the ECMAScript WhiteSpace and LineTerminator code units
  from both ends.
\<close>

definition isWhiteSpace :: "jschar \<Rightarrow> bool" where
  "isWhiteSpace c = (c \<in> set [0x9, 0xA, 0xB, 0xC, 0xD, 0x20, 0xA0, 0x1680,
     0x2000, 0x2001, 0x2002, 0x2003, 0x2004, 0x2005, 0x2006, 0x2007, 0x2008, 0x2009, 0x200A,
     0x2028, 0x2029, 0x202F, 0x205F, 0x3000, 0xFEFF])"

definition trim :: "jsstring \<Rightarrow> jsstring" where
  "trim s = rev (dropWhile isWhiteSpace (rev (dropWhile isWhiteSpace s)))"

text \<open>\<open>v.trim()\<close> with a receiver that may be \<open>undefined\<close>.\<close>

definition trim_m :: "jsval \<Rightarrow> error + jsstring" where
  "trim_m v = (case v of Undefined \<Rightarrow> Inl TypeError | Str s \<Rightarrow> Inr (trim s))"

text \<open>
  \<open>s.split(sep)\<close> for a separator that matches exactly one code unit (a character class, or
  a one-character string): the pieces between consecutive separators, empty pieces kept, and
  \<open>[""]\<close> for the empty string.
\<close>

fun js_split :: "(jschar \<Rightarrow> bool) \<Rightarrow> jsstring \<Rightarrow> jsstring list" where
  "js_split d [] = [[]]"
| "js_split d (c # cs) =
     (if d c then [] # js_split d cs
      else (case js_split d cs of [] \<Rightarrow> [[c]] | w # ws \<Rightarrow> (c # w) # ws))"

definition split_m :: "(jschar \<Rightarrow> bool) \<Rightarrow> jsval \<Rightarrow> error + jsstring list" where
  "split_m d v = (case v of Undefined \<Rightarrow> Inl TypeError | Str s \<Rightarrow> Inr (js_split d s))"

text \<open>The character class \<open>/[|,\<bullet>\n]/\<close>: bar, comma, U+2022 and line feed.\<close>

definition listDelim :: "jschar \<Rightarrow> bool" where
  "listDelim c = (c = 0x7C \<or> c = 0x2C \<or> c = 0x2022 \<or> c = 0xA)"

text \<open>The character class \<open>/[.|]/\<close>.\<close>

definition sentenceDelim :: "jschar \<Rightarrow> bool" where
  "sentenceDelim c = (c = 0x2E \<or> c = 0x7C)"

text \<open>The separator \<open>","\<close>.\<close>

definition commaDelim :: "jschar \<Rightarrow> bool" where
  "commaDelim c = (c = 0x2C)"

text \<open>\<open>xs.join(sep)\<close>: an \<open>undefined\<close> element is written as the empty string.\<close>

fun joinItem :: "jsval \<Rightarrow> jsstring" where
  "joinItem Undefined = []"
| "joinItem (Str s) = s"

fun js_join :: "jsstring \<Rightarrow> jsval list \<Rightarrow> jsstring" where
  "js_join sep [] = []"
| "js_join sep [x] = joinItem x"
| "js_join sep (x # y # ys) = joinItem x @ sep @ js_join sep (y # ys)"

section \<open>The templates of \<open>utils/catalog.ts\<close>\<close>

datatype ListingPlatform = Amazon | Flipkart | Meesho | Myntra

fun platformName :: "ListingPlatform \<Rightarrow> jsstring" where
  "platformName Amazon = jstr ''Amazon''"
| "platformName Flipkart = jstr ''Flipkart''"
| "platformName Meesho = jstr ''Meesho''"
| "platformName Myntra = jstr ''Myntra''"

text \<open>
  The Amazon title before its final \<open>.slice(0, 180)\<close>:
  \<open>[brand, name, keyTrait, size].filter(Boolean).map((part) => part.trim()).join(" | ")\<close>.
\<close>

definition amazonTitleJoined :: "CatalogRow \<Rightarrow> error + jsstring" where
  "amazonTitleJoined row =
     (let brand = js_or (js_or (js_or (getProp row ''brand'') (getProp row ''Brand''))
                    (getProp row ''vendor'')) (Str (jstr ''Premium''));
          name = js_or (js_or (js_or (getProp row ''product_name'') (getProp row ''title''))
                    (getProp row ''Name'')) (Str (jstr ''Product''));
          keyTrait = js_or (js_or (js_or (js_or (getProp row ''key_feature'')
                    (getProp row ''feature'')) (getProp row ''Features''))
                    (getProp row ''material'')) (Str []);
          size = js_or (js_or (getProp row ''size'') (getProp row ''Size'')) (Str [])
      in bind_err (map_err trim_m (filter truthy [brand, name, keyTrait, size]))
           (\<lambda>parts. Inr (js_join (jstr '' | '') (map Str parts))))"

definition titleTemplates_Amazon :: "CatalogRow \<Rightarrow> error + jsstring" where
  "titleTemplates_Amazon row =
     bind_err (amazonTitleJoined row) (\<lambda>joined. Inr (take 180 joined))"

definition titleTemplates_Flipkart :: "CatalogRow \<Rightarrow> error + jsstring" where
  "titleTemplates_Flipkart row =
     (let base = js_or (js_or (getProp row ''product_name'') (getProp row ''title''))
                    (Str (jstr ''Exclusive Pick''));
          qualifier = js_or (js_or (js_or (getProp row ''style'') (getProp row ''pattern''))
                    (getProp row ''gender'')) (Str [])
      in Inr (take 100 (trim (toString base @ jstr '' '' @ toString qualifier))))"

definition titleTemplates_Meesho :: "CatalogRow \<Rightarrow> error + jsstring" where
  "titleTemplates_Meesho row =
     (let base = js_or (js_or (getProp row ''product_name'') (getProp row ''title''))
                    (Str (jstr ''Trendy Look''));
          category = js_or (js_or (getProp row ''category'') (getProp row ''segment''))
                    (Str (jstr ''Best Seller''))
      in Inr (take 120 (toString base @ jstr '' - '' @ toString category)))"

definition titleTemplates_Myntra :: "CatalogRow \<Rightarrow> error + jsstring" where
  "titleTemplates_Myntra row =
     (let brand = js_or (js_or (getProp row ''brand'') (getProp row ''Brand''))
                    (Str (jstr ''Signature''));
          base = js_or (js_or (getProp row ''product_name'') (getProp row ''title''))
                    (Str (jstr ''Collection''))
      in Inr (take 80 (toString brand @ jstr '' '' @ toString base)))"

fun titleTemplates :: "ListingPlatform \<Rightarrow> CatalogRow \<Rightarrow> error + jsstring" where
  "titleTemplates Amazon = titleTemplates_Amazon"
| "titleTemplates Flipkart = titleTemplates_Flipkart"
| "titleTemplates Meesho = titleTemplates_Meesho"
| "titleTemplates Myntra = titleTemplates_Myntra"

definition meeshoDefaultBullets :: "jsval list" where
  "meeshoDefaultBullets =
     [Str (jstr ''Trusted quality''), Str (jstr ''Curated for your boutique''),
      Str (jstr ''Ships fast'')]"

text \<open>The value the Meesho bullet template tests and splits.\<close>

definition meeshoHighlight :: "CatalogRow \<Rightarrow> jsval" where
  "meeshoHighlight row =
     js_or (js_or (js_or (getProp row ''highlight'') (getProp row ''Highlights''))
       (getProp row ''features'')) (Str [])"

definition bulletTemplates_Amazon :: "CatalogRow \<Rightarrow> error + jsval list" where
  "bulletTemplates_Amazon row =
     bind_err (split_m listDelim
         (js_or (js_or (getProp row ''features'') (getProp row ''Features'')) (Str [])))
       (\<lambda>pieces.
         let features = filter (\<lambda>s. s \<noteq> []) (map trim pieces);
             material = (if truthy (getProp row ''material'')
                then Str (jstr ''Crafted from '' @ toString (getProp row ''material'') @ jstr ''.'')
                else Undefined);
             usage = (if truthy (getProp row ''usage'')
                then Str (jstr ''Ideal for '' @ toString (getProp row ''usage'') @ jstr ''.'')
                else Undefined)
         in Inr (take 5 (filter truthy ([material, usage] @ map Str features))))"

definition bulletTemplates_Flipkart :: "CatalogRow \<Rightarrow> error + jsval list" where
  "bulletTemplates_Flipkart row =
     (let usp = js_or (js_or (js_or (getProp row ''usp'') (getProp row ''UniqueSellingPoint''))
                    (getProp row ''description'')) (Str [])
      in bind_err (split_m sentenceDelim usp)
           (\<lambda>pieces. Inr (map Str (take 5 (filter (\<lambda>part. length part > 3) (map trim pieces))))))"

definition bulletTemplates_Meesho :: "CatalogRow \<Rightarrow> error + jsval list" where
  "bulletTemplates_Meesho row =
     (let highlight = meeshoHighlight row
      in if \<not> truthy highlight then Inr meeshoDefaultBullets
         else bind_err (split_m listDelim highlight)
           (\<lambda>pieces. Inr (map Str (take 4 (filter (\<lambda>s. s \<noteq> []) (map trim pieces))))))"

definition bulletTemplates_Myntra :: "CatalogRow \<Rightarrow> error + jsval list" where
  "bulletTemplates_Myntra row =
     (let styleTip = js_or (js_or (getProp row ''style_tip'') (getProp row ''Styling'')) (Str []);
          care = js_or (js_or (getProp row ''care'') (getProp row ''care_instructions'')) (Str [])
      in Inr (take 3 (filter truthy [styleTip, care])))"

fun bulletTemplates :: "ListingPlatform \<Rightarrow> CatalogRow \<Rightarrow> error + jsval list" where
  "bulletTemplates Amazon = bulletTemplates_Amazon"
| "bulletTemplates Flipkart = bulletTemplates_Flipkart"
| "bulletTemplates Meesho = bulletTemplates_Meesho"
| "bulletTemplates Myntra = bulletTemplates_Myntra"

definition descriptionTemplates_Amazon :: "CatalogRow \<Rightarrow> jsstring" where
  "descriptionTemplates_Amazon row =
     (let name = js_or (js_or (getProp row ''product_name'') (getProp row ''title''))
                    (Str (jstr ''this product''));
          category = js_or (js_or (getProp row ''category'') (getProp row ''ProductType''))
                    (Str (jstr ''premium item''));
          tone = js_or (getProp row ''tone'') (Str (jstr ''professional''))
      in toString name @ jstr '' delivers a '' @ toString tone @ jstr '' experience in the ''
           @ toString category
           @ jstr '' category. Designed to maximise conversion with compelling features and customer-centric benefits.'')"

definition descriptionTemplates_Flipkart :: "CatalogRow \<Rightarrow> jsstring" where
  "descriptionTemplates_Flipkart row =
     (let origin = js_or (js_or (getProp row ''country_of_origin'') (getProp row ''origin''))
                    (Str (jstr ''India''))
      in jstr ''Handpicked for Flipkart customers. Crafted in '' @ toString origin
           @ jstr '' with attention to detailing, ensuring great value for money shoppers.'')"

definition descriptionTemplates_Meesho :: "CatalogRow \<Rightarrow> jsstring" where
  "descriptionTemplates_Meesho row =
     (let margin = (if truthy (js_or (getProp row ''margin'') (getProp row ''wholesale_price''))
                    then Str (jstr ''Optimised margins for resellers.'') else Str [])
      in jstr ''Perfect addition for boutique sellers. '' @ toString margin
           @ jstr '' Lightweight packaging for reduced logistics cost.'')"

definition descriptionTemplates_Myntra :: "CatalogRow \<Rightarrow> jsstring" where
  "descriptionTemplates_Myntra row =
     (let vibe = js_or (js_or (getProp row ''theme'') (getProp row ''collection''))
                    (Str (jstr ''seasonal''))
      in jstr ''Part of our '' @ toString vibe
           @ jstr '' drop, aligned with Myntra style guides. Pair it effortlessly with trending wardrobe essentials.'')"

fun descriptionTemplates :: "ListingPlatform \<Rightarrow> CatalogRow \<Rightarrow> jsstring" where
  "descriptionTemplates Amazon = descriptionTemplates_Amazon"
| "descriptionTemplates Flipkart = descriptionTemplates_Flipkart"
| "descriptionTemplates Meesho = descriptionTemplates_Meesho"
| "descriptionTemplates Myntra = descriptionTemplates_Myntra"

text \<open>\<open>item?.toString().trim() || ""\<close>: the optional chain stops at \<open>undefined\<close>.\<close>

definition keywordItem :: "jsval \<Rightarrow> jsval" where
  "keywordItem item =
     js_or (case item of Undefined \<Rightarrow> Undefined | Str s \<Rightarrow> Str (trim s)) (Str [])"

definition keywordTemplates_Amazon :: "CatalogRow \<Rightarrow> error + jsval list" where
  "keywordTemplates_Amazon row =
     (let keywords = js_or (js_or (getProp row ''keywords'') (getProp row ''search_terms''))
                    (Str []);
          derived = filter truthy [getProp row ''category'', getProp row ''sub_category'',
                    getProp row ''material'', getProp row ''color'', getProp row ''season'']
      in bind_err (split_m commaDelim keywords)
           (\<lambda>pieces. Inr (take 15 (filter truthy (map keywordItem (map Str pieces @ derived))))))"

definition keywordTemplates_Flipkart :: "CatalogRow \<Rightarrow> error + jsval list" where
  "keywordTemplates_Flipkart row =
     Inr (map (\<lambda>v. Str (toString v)) (filter truthy [getProp row ''category'',
       getProp row ''brand'', getProp row ''gender'', getProp row ''pattern'']))"

definition keywordTemplates_Meesho :: "CatalogRow \<Rightarrow> error + jsval list" where
  "keywordTemplates_Meesho row =
     Inr (map (\<lambda>v. Str (toString v)) (filter truthy [getProp row ''category'',
       getProp row ''product_name'', Str (jstr ''Wholesale''), Str (jstr ''Trending'')]))"

definition keywordTemplates_Myntra :: "CatalogRow \<Rightarrow> error + jsval list" where
  "keywordTemplates_Myntra row =
     Inr (map (\<lambda>v. Str (toString v)) (filter truthy [getProp row ''brand'',
       getProp row ''category'', getProp row ''occasion'', getProp row ''fit'']))"

fun keywordTemplates :: "ListingPlatform \<Rightarrow> CatalogRow \<Rightarrow> error + jsval list" where
  "keywordTemplates Amazon = keywordTemplates_Amazon"
| "keywordTemplates Flipkart = keywordTemplates_Flipkart"
| "keywordTemplates Meesho = keywordTemplates_Meesho"
| "keywordTemplates Myntra = keywordTemplates_Myntra"

section \<open>\<open>generateListing\<close>\<close>

record Listing =
  Platform :: jsval
  Title :: jsval
  BulletPoints :: jsval
  Description :: jsval
  SearchKeywords :: jsval
  Price :: jsval
  SKU :: jsval
  HSN :: jsval

definition generateListing :: "CatalogRow \<Rightarrow> ListingPlatform \<Rightarrow> error + Listing" where
  "generateListing row platform =
     bind_err (titleTemplates platform row) (\<lambda>title.
     bind_err (bulletTemplates platform row) (\<lambda>bullets.
     let description = descriptionTemplates platform row
     in bind_err (keywordTemplates platform row) (\<lambda>keywords.
     Inr \<lparr>Platform = Str (platformName platform),
          Title = Str title,
          BulletPoints = Str (js_join (jstr '' | '') bullets),
          Description = Str description,
          SearchKeywords = Str (js_join (jstr '', '') keywords),
          Price = js_or (js_or (js_or (getProp row ''price'') (getProp row ''selling_price''))
                    (getProp row ''mrp'')) (Str []),
          SKU = js_or (js_or (js_or (getProp row ''sku'') (getProp row ''SKU''))
                    (getProp row ''Seller SKU'')) (Str []),
          HSN = js_or (js_or (getProp row ''hsn'') (getProp row ''hsn_code'')) (Str [])\<rparr>)))"

section \<open>\<open>enrichCatalog\<close>\<close>

text \<open>The own properties of the object literal that \<open>generateListing\<close> returns.\<close>

definition listingProps :: "Listing \<Rightarrow> obj" where
  "listingProps l =
     [jstr ''Platform'' \<mapsto> Platform l, jstr ''Title'' \<mapsto> Title l,
      jstr ''BulletPoints'' \<mapsto> BulletPoints l, jstr ''Description'' \<mapsto> Description l,
      jstr ''SearchKeywords'' \<mapsto> SearchKeywords l, jstr ''Price'' \<mapsto> Price l,
      jstr ''SKU'' \<mapsto> SKU l, jstr ''HSN'' \<mapsto> HSN l]"

text \<open>
  The contents of \<open>{ ...row, ...generateListing(row, platform) }\<close>: the row's properties are
  copied first, the listing's properties are written over them.
\<close>

definition mergedRecord :: "CatalogRow \<Rightarrow> ListingPlatform \<Rightarrow> error + obj" where
  "mergedRecord row platform =
     bind_err (generateListing row platform) (\<lambda>l. Inr (row ++ listingProps l))"

text \<open>
  Rows and merged records are objects, held by reference. The store maps a reference to the
  object's properties; an object literal allocates the next unused reference. The record
  that \<open>generateListing\<close> returns is spread at once and never stored, so only its properties
  are kept.
\<close>

type_synonym ref = nat

record heap =
  objs :: "ref \<Rightarrow> obj"
  next_ref :: ref

definition alloc :: "obj \<Rightarrow> heap \<Rightarrow> ref \<times> heap" where
  "alloc ob h = (next_ref h, h\<lparr>objs := (objs h)(next_ref h := ob), next_ref := Suc (next_ref h)\<rparr>)"

text \<open>\<open>platforms.map((platform) => ({ ...row, ...generateListing(row, platform) }))\<close>\<close>

fun expandRow :: "ref \<Rightarrow> ListingPlatform list \<Rightarrow> heap \<Rightarrow> error + (ref list \<times> heap)" where
  "expandRow row [] h = Inr ([], h)"
| "expandRow row (platform # platforms) h =
     bind_err (mergedRecord (objs h row) platform) (\<lambda>ob.
     case alloc ob h of (r, h1) \<Rightarrow>
     bind_err (expandRow row platforms h1) (\<lambda>(rs, h2). Inr (r # rs, h2)))"

text \<open>\<open>rows.flatMap((row) => ...)\<close>\<close>

fun enrichCatalog :: "ref list \<Rightarrow> ListingPlatform list \<Rightarrow> heap \<Rightarrow> error + (ref list \<times> heap)" where
  "enrichCatalog [] platforms h = Inr ([], h)"
| "enrichCatalog (row # rows) platforms h =
     bind_err (expandRow row platforms h) (\<lambda>(xs, h1).
     bind_err (enrichCatalog rows platforms h1) (\<lambda>(ys, h2). Inr (xs @ ys, h2)))"

section \<open>The specification's vocabulary\<close>

text \<open>The title ceilings the specification lists, per platform.\<close>

fun titleCeiling :: "ListingPlatform \<Rightarrow> nat" where
  "titleCeiling Amazon = 180"
| "titleCeiling Flipkart = 100"
| "titleCeiling Meesho = 120"
| "titleCeiling Myntra = 80"

text \<open>
  "First non-empty of" a list of column names, with a default: the specification's alias
  fallback chain.
\<close>

fun firstNonEmpty :: "CatalogRow \<Rightarrow> string list \<Rightarrow> jsstring \<Rightarrow> jsstring" where
  "firstNonEmpty row [] d = d"
| "firstNonEmpty row (k # ks) d =
     (case row (jstr k) of
        Some (Str s) \<Rightarrow> if s \<noteq> [] then s else firstNonEmpty row ks d
      | _ \<Rightarrow> firstNonEmpty row ks d)"

text \<open>The four parts of the Amazon title as the specification names them.\<close>

definition amazonTitleParts :: "CatalogRow \<Rightarrow> jsstring list" where
  "amazonTitleParts row =
     [firstNonEmpty row [''brand'', ''Brand'', ''vendor''] (jstr ''Premium''),
      firstNonEmpty row [''product_name'', ''title'', ''Name''] (jstr ''Product''),
      firstNonEmpty row [''key_feature'', ''feature'', ''Features'', ''material''] [],
      firstNonEmpty row [''size'', ''Size''] []]"

text \<open>
  The Amazon title in the specification's order of steps: every part is trimmed first, the
  parts that are then non-empty are joined with " | ", and the result is cut to 180.
\<close>

definition amazonTitleClaimed :: "CatalogRow \<Rightarrow> jsstring" where
  "amazonTitleClaimed row =
     take 180 (js_join (jstr '' | '')
       (map Str (filter (\<lambda>part. part \<noteq> []) (map trim (amazonTitleParts row)))))"

text \<open>
  The values "present" among a list of columns: those that are non-empty strings, in the
  order of the list.
\<close>

fun presentValues :: "CatalogRow \<Rightarrow> string list \<Rightarrow> jsstring list" where
  "presentValues row [] = []"
| "presentValues row (k # ks) =
     (case row (jstr k) of
        Some (Str s) \<Rightarrow> if s \<noteq> [] then s # presentValues row ks else presentValues row ks
      | _ \<Rightarrow> presentValues row ks)"

text \<open>
  The Amazon keyword candidates in the specification's words: the pieces of the first
  non-empty of keywords, search_terms split on ",", then the present values of category,
  sub_category, material, color, season; all trimmed, the empty ones dropped. No step
  removes a repeated entry.
\<close>

definition amazonKeywordCandidates :: "CatalogRow \<Rightarrow> jsstring list" where
  "amazonKeywordCandidates row =
     filter (\<lambda>s. s \<noteq> [])
       (map trim (js_split commaDelim (firstNonEmpty row [''keywords'', ''search_terms''] [])
          @ presentValues row [''category'', ''sub_category'', ''material'', ''color'',
              ''season'']))"

text \<open>The names of the eight computed fields.\<close>

definition computedFields :: "jsstring list" where
  "computedFields = map jstr [''Platform'', ''Title'', ''BulletPoints'', ''Description'',
     ''SearchKeywords'', ''Price'', ''SKU'', ''HSN'']"

text \<open>
  Two values count as the same for the templates when they are equal, or both falsy: every
  read of a row is \<open>||\<close>-chained, tested for truthiness or filtered by \<open>Boolean\<close>.
\<close>

definition sameTruthy :: "jsval \<Rightarrow> jsval \<Rightarrow> bool" where
  "sameTruthy a b = (if truthy a then a = b else \<not> truthy b)"

section \<open>Rows used as concrete inputs\<close>

text \<open>\<open>{ keywords: "red,red", category: "red" }\<close>\<close>

definition redRow :: CatalogRow where
  "redRow = [jstr ''keywords'' \<mapsto> Str (jstr ''red,red''), jstr ''category'' \<mapsto> Str (jstr ''red'')]"

text \<open>\<open>{ brand: "", Brand: "Acme", product_name: "Kettle" }\<close>\<close>

definition emptyBrandRow :: CatalogRow where
  "emptyBrandRow = [jstr ''brand'' \<mapsto> Str [], jstr ''Brand'' \<mapsto> Str (jstr ''Acme''),
     jstr ''product_name'' \<mapsto> Str (jstr ''Kettle'')]"

text \<open>\<open>{ highlight: " " }\<close>\<close>

definition blankHighlightRow :: CatalogRow where
  "blankHighlightRow = [jstr ''highlight'' \<mapsto> Str (jstr '' '')]"

text \<open>\<open>{ key_feature: " " }\<close>\<close>

definition blankTraitRow :: CatalogRow where
  "blankTraitRow = [jstr ''key_feature'' \<mapsto> Str (jstr '' '')]"

text \<open>A row whose \<open>product_name\<close> is the letter a, 200 times.\<close>

definition longNameRow :: CatalogRow where
  "longNameRow = [jstr ''product_name'' \<mapsto> Str (replicate 200 0x61)]"

text \<open>A store holding \<open>redRow\<close> at reference 0 and nothing else.\<close>

definition sampleHeap :: heap where
  "sampleHeap = \<lparr>objs = (\<lambda>_. Map.empty)(0 := redRow), next_ref = 1\<rparr>"

section \<open>How \<open>generateListing\<close> assembles its record\<close>

lemma generateListing_Inr:
  assumes "titleTemplates platform row = Inr title"
    and "bulletTemplates platform row = Inr bullets"
    and "keywordTemplates platform row = Inr keywords"
  shows "generateListing row platform =
     Inr \<lparr>Platform = Str (platformName platform),
          Title = Str title,
          BulletPoints = Str (js_join (jstr '' | '') bullets),
          Description = Str (descriptionTemplates platform row),
          SearchKeywords = Str (js_join (jstr '', '') keywords),
          Price = js_or (js_or (js_or (getProp row ''price'') (getProp row ''selling_price''))
                    (getProp row ''mrp'')) (Str []),
          SKU = js_or (js_or (js_or (getProp row ''sku'') (getProp row ''SKU''))
                    (getProp row ''Seller SKU'')) (Str []),
          HSN = js_or (js_or (getProp row ''hsn'') (getProp row ''hsn_code'')) (Str [])\<rparr>"
  using assms by (simp add: generateListing_def bind_err_def)

section \<open>No method is ever called on \<open>undefined\<close>\<close>

lemma js_or_literal: "\<exists>s. js_or v (Str d) = Str s"
  by (cases v) (simp_all add: js_or_def)

lemma truthy_Str: "truthy v \<Longrightarrow> \<exists>s. v = Str s"
  by (cases v) simp_all

lemma map_err_trim_truthy:
  "\<forall>v\<in>set vs. truthy v \<Longrightarrow> map_err trim_m vs = Inr (map (\<lambda>v. trim (toString v)) vs)"
proof (induction vs)
  case Nil
  show ?case by simp
next
  case (Cons v vs)
  then obtain s where "v = Str s" using truthy_Str by auto
  with Cons show ?case by (simp add: trim_m_def bind_err_def)
qed

lemma split_m_or_literal:
  "split_m d (js_or v (Str lit)) = Inr (js_split d (toString (js_or v (Str lit))))"
  by (cases v) (simp_all add: js_or_def split_m_def)

lemma amazonTitleJoined_total: "\<exists>j. amazonTitleJoined row = Inr j"
  by (simp add: amazonTitleJoined_def Let_def map_err_trim_truthy bind_err_def del: filter.simps)

lemma titleTemplates_total: "\<exists>t. titleTemplates p row = Inr t"
proof (cases p)
  case Amazon
  obtain j where "amazonTitleJoined row = Inr j" using amazonTitleJoined_total by blast
  with Amazon show ?thesis by (simp add: titleTemplates_Amazon_def bind_err_def)
qed (simp_all add: titleTemplates_Flipkart_def titleTemplates_Meesho_def
    titleTemplates_Myntra_def Let_def)

lemma bulletTemplates_total: "\<exists>b. bulletTemplates p row = Inr b"
  by (cases p) (simp_all add: bulletTemplates_Amazon_def bulletTemplates_Flipkart_def
      bulletTemplates_Meesho_def bulletTemplates_Myntra_def meeshoHighlight_def Let_def
      split_m_or_literal bind_err_def del: filter.simps)

lemma keywordTemplates_total: "\<exists>k. keywordTemplates p row = Inr k"
  by (cases p) (simp_all add: keywordTemplates_Amazon_def keywordTemplates_Flipkart_def
      keywordTemplates_Meesho_def keywordTemplates_Myntra_def Let_def
      split_m_or_literal bind_err_def del: filter.simps)

lemma generateListing_total: "\<exists>l. generateListing row p = Inr l"
  using titleTemplates_total [of p row] bulletTemplates_total [of p row]
    keywordTemplates_total [of p row] generateListing_Inr [of p row]
  by blast

text \<open>
  C2. For every platform and every row, the empty row included, \<open>generateListing\<close> does not
  throw, and each of the eight fields of the record it returns is a string.
\<close>

theorem generateListing_never_throws:
  "\<exists>t b d k pr sk hs. generateListing row p =
     Inr \<lparr>Platform = Str (platformName p), Title = Str t, BulletPoints = Str b,
          Description = Str d, SearchKeywords = Str k, Price = Str pr, SKU = Str sk,
          HSN = Str hs\<rparr>"
proof -
  obtain t where t: "titleTemplates p row = Inr t" using titleTemplates_total by blast
  obtain b where b: "bulletTemplates p row = Inr b" using bulletTemplates_total by blast
  obtain k where k: "keywordTemplates p row = Inr k" using keywordTemplates_total by blast
  obtain pr where pr:
    "js_or (js_or (js_or (getProp row ''price'') (getProp row ''selling_price''))
       (getProp row ''mrp'')) (Str []) = Str pr"
    using js_or_literal by blast
  obtain sk where sk:
    "js_or (js_or (js_or (getProp row ''sku'') (getProp row ''SKU''))
       (getProp row ''Seller SKU'')) (Str []) = Str sk"
    using js_or_literal by blast
  obtain hs where hs:
    "js_or (js_or (getProp row ''hsn'') (getProp row ''hsn_code'')) (Str []) = Str hs"
    using js_or_literal by blast
  show ?thesis
    unfolding generateListing_Inr [OF t b k] pr sk hs by blast
qed

section \<open>The Amazon title\<close>

lemma chain2:
  "js_or (js_or (getProp row a) (getProp row b)) (Str d) = Str (firstNonEmpty row [a, b] d)"
  by (simp add: js_or_def getProp_def split: option.splits jsval.splits)

lemma chain3:
  "js_or (js_or (js_or (getProp row a) (getProp row b)) (getProp row c)) (Str d)
     = Str (firstNonEmpty row [a, b, c] d)"
  by (simp add: js_or_def getProp_def split: option.splits jsval.splits)

lemma chain4:
  "js_or (js_or (js_or (js_or (getProp row a) (getProp row b)) (getProp row c))
     (getProp row e)) (Str d) = Str (firstNonEmpty row [a, b, c, e] d)"
  by (simp add: js_or_def getProp_def split: option.splits jsval.splits)

lemma map_err_trim_Str: "map_err trim_m (map Str xs) = Inr (map trim xs)"
  by (induction xs) (simp_all add: trim_m_def bind_err_def)

lemma filter_truthy_Str: "filter truthy (map Str xs) = map Str (filter (\<lambda>s. s \<noteq> []) xs)"
  by (induction xs) simp_all

text \<open>
  What the code computes for every row: the resolved parts are filtered by \<open>Boolean\<close>
  first, the parts that pass are trimmed, and the trimmed parts are joined and cut to 180.
\<close>

lemma amazon_title_filter_then_trim:
  "titleTemplates Amazon row =
     Inr (take 180 (js_join (jstr '' | '')
       (map Str (map trim (filter (\<lambda>part. part \<noteq> []) (amazonTitleParts row))))))"
proof -
  have parts: "filter truthy (map Str (amazonTitleParts row))
      = map Str (filter (\<lambda>part. part \<noteq> []) (amazonTitleParts row))"
    by (rule filter_truthy_Str)
  have "amazonTitleJoined row = Inr (js_join (jstr '' | '')
       (map Str (map trim (filter (\<lambda>part. part \<noteq> []) (amazonTitleParts row)))))"
    unfolding amazonTitleJoined_def Let_def chain2 chain3 chain4
    using parts
    by (simp add: amazonTitleParts_def map_err_trim_Str bind_err_def
        del: filter.simps firstNonEmpty.simps)
  then show ?thesis
    by (simp add: titleTemplates_Amazon_def bind_err_def)
qed

text \<open>
  On a row whose resolved parts carry no leading or trailing white space, as the rows that
  the upload path trims, the code's title is the title the specification describes.
\<close>

lemma amazon_title_on_trimmed_rows:
  assumes "\<forall>part \<in> set (amazonTitleParts row). trim part = part"
  shows "titleTemplates Amazon row = Inr (amazonTitleClaimed row)"
proof -
  have "map trim (amazonTitleParts row) = amazonTitleParts row"
    by (intro map_idI) (use assms in auto)
  moreover have "map trim (filter (\<lambda>part. part \<noteq> []) (amazonTitleParts row))
      = filter (\<lambda>part. part \<noteq> []) (amazonTitleParts row)"
    by (intro map_idI) (use assms in auto)
  ultimately show ?thesis
    by (simp only: amazon_title_filter_then_trim amazonTitleClaimed_def)
qed

text \<open>
  C3. The Amazon title is specified as: trim each of the four parts, join the non-empty
  ones with " | ", cut to 180, so that a whitespace-only part contributes nothing. The code
  departs from this on \<open>{key_feature: " "}\<close>: the blank key trait passes \<open>filter(Boolean)\<close>,
  is trimmed to the empty string only afterwards, and is still joined, so the code returns
  "Premium | Product | " where the specified title is "Premium | Product".
\<close>

theorem amazon_title_blank_part_divergence:
  "titleTemplates Amazon blankTraitRow = Inr (jstr ''Premium | Product | '')
   \<and> amazonTitleClaimed blankTraitRow = jstr ''Premium | Product''
   \<and> titleTemplates Amazon blankTraitRow \<noteq> Inr (amazonTitleClaimed blankTraitRow)"
  by (simp add: titleTemplates_Amazon_def amazonTitleJoined_def amazonTitleClaimed_def
      amazonTitleParts_def blankTraitRow_def getProp_def js_or_def jstr_def trim_m_def
      bind_err_def trim_def isWhiteSpace_def)

section \<open>Title ceilings\<close>

lemma titleTemplates_length: "titleTemplates p row = Inr t \<Longrightarrow> length t \<le> titleCeiling p"
  by (cases p) (auto simp: titleTemplates_Amazon_def titleTemplates_Flipkart_def
      titleTemplates_Meesho_def titleTemplates_Myntra_def Let_def bind_err_def
      split: sum.splits simp del: take_append)

text \<open>
  C4. For every row and platform the listing's Title has at most the platform's ceiling of
  code units (Amazon 180, Flipkart 100, Meesho 120, Myntra 80); and whenever the joined
  Amazon title is longer than 180, the Amazon title has length exactly 180 and is a strict
  prefix of the joined string.
\<close>

theorem title_within_ceiling:
  "(\<exists>l t. generateListing row p = Inr l \<and> Title l = Str t \<and> length t \<le> titleCeiling p)
   \<and> (\<exists>joined t. amazonTitleJoined row = Inr joined \<and> titleTemplates Amazon row = Inr t
        \<and> (180 < length joined \<longrightarrow> length t = 180 \<and> strict_prefix t joined))"
proof -
  obtain t where t: "titleTemplates p row = Inr t" using titleTemplates_total by blast
  obtain b where b: "bulletTemplates p row = Inr b" using bulletTemplates_total by blast
  obtain k where k: "keywordTemplates p row = Inr k" using keywordTemplates_total by blast
  have first:
    "\<exists>l t. generateListing row p = Inr l \<and> Title l = Str t \<and> length t \<le> titleCeiling p"
    using generateListing_Inr [OF t b k] titleTemplates_length [OF t] by simp
  obtain joined where j: "amazonTitleJoined row = Inr joined"
    using amazonTitleJoined_total by blast
  have a: "titleTemplates Amazon row = Inr (take 180 joined)"
    by (simp add: titleTemplates_Amazon_def j bind_err_def)
  have "180 < length joined \<longrightarrow>
      length (take 180 joined) = 180 \<and> strict_prefix (take 180 joined) joined"
    by (auto simp: strict_prefix_def take_is_prefix)
  with j a first show ?thesis by blast
qed

theorem title_within_ceiling_witness:
  "\<exists>joined t. amazonTitleJoined longNameRow = Inr joined
     \<and> titleTemplates Amazon longNameRow = Inr t
     \<and> 180 < length joined \<and> length t = 180 \<and> strict_prefix t joined"
proof -
  have j: "amazonTitleJoined longNameRow = Inr (jstr ''Premium | '' @ replicate 200 0x61)"
    by (simp add: amazonTitleJoined_def longNameRow_def getProp_def js_or_def jstr_def
        trim_m_def bind_err_def trim_def isWhiteSpace_def)
  have len: "180 < length (jstr ''Premium | '' @ replicate 200 (0x61 :: jschar))"
    by (simp add: jstr_def)
  from title_within_ceiling [of longNameRow Amazon] j len show ?thesis by auto
qed

section \<open>An empty value and a missing key\<close>

lemma js_or_sameTruthy_first: "sameTruthy a a' \<Longrightarrow> js_or a b = js_or a' b"
  by (auto simp: sameTruthy_def js_or_def split: if_splits)

lemma js_or_sameTruthy_second:
  "sameTruthy b b' \<Longrightarrow> js_or (js_or x b) y = js_or (js_or x b') y"
  by (auto simp: sameTruthy_def js_or_def split: if_splits)

lemma truthy_js_or_sameTruthy:
  "sameTruthy b b' \<Longrightarrow> truthy (js_or x b) = truthy (js_or x b')"
  by (auto simp: sameTruthy_def js_or_def split: if_splits)

lemma sentence_sameTruthy:
  "sameTruthy a a' \<Longrightarrow>
   (if truthy a then Str (p @ toString a @ q) else Undefined) =
   (if truthy a' then Str (p @ toString a' @ q) else Undefined)"
  by (auto simp: sameTruthy_def split: if_splits)

lemma keep_sameTruthy:
  "sameTruthy a a' \<Longrightarrow> (if truthy a then [a] else []) = (if truthy a' then [a'] else [])"
  by (auto simp: sameTruthy_def split: if_splits)

lemma filter_truthy_Cons:
  "filter truthy (x # xs) = (if truthy x then [x] else []) @ filter truthy xs"
  by simp

lemma getProp_remove_empty:
  "row k = Some (Str []) \<Longrightarrow> sameTruthy (getProp (row(k := None)) j) (getProp row j)"
  by (simp add: sameTruthy_def getProp_def)

lemma templates_sameTruthy:
  assumes same: "\<And>j. sameTruthy (getProp row' j) (getProp row j)"
  shows "amazonTitleJoined row' = amazonTitleJoined row"
    and "titleTemplates p row' = titleTemplates p row"
    and "bulletTemplates p row' = bulletTemplates p row"
    and "descriptionTemplates p row' = descriptionTemplates p row"
    and "keywordTemplates p row' = keywordTemplates p row"
proof -
  note rw = js_or_sameTruthy_first [OF same] js_or_sameTruthy_second [OF same]
    truthy_js_or_sameTruthy [OF same] sentence_sameTruthy [OF same] keep_sameTruthy [OF same]
  show j: "amazonTitleJoined row' = amazonTitleJoined row"
    by (simp add: amazonTitleJoined_def rw)
  show "titleTemplates p row' = titleTemplates p row"
    by (cases p) (simp_all add: titleTemplates_Amazon_def j titleTemplates_Flipkart_def
        titleTemplates_Meesho_def titleTemplates_Myntra_def rw)
  show "bulletTemplates p row' = bulletTemplates p row"
    by (cases p) (simp_all only: bulletTemplates.simps bulletTemplates_Amazon_def
        bulletTemplates_Flipkart_def bulletTemplates_Meesho_def bulletTemplates_Myntra_def
        meeshoHighlight_def Let_def rw filter_truthy_Cons append_Cons)
  show "descriptionTemplates p row' = descriptionTemplates p row"
    by (cases p) (simp_all only: descriptionTemplates.simps descriptionTemplates_Amazon_def
        descriptionTemplates_Flipkart_def descriptionTemplates_Meesho_def
        descriptionTemplates_Myntra_def Let_def rw)
  show "keywordTemplates p row' = keywordTemplates p row"
    by (cases p) (simp_all only: keywordTemplates.simps keywordTemplates_Amazon_def
        keywordTemplates_Flipkart_def keywordTemplates_Meesho_def keywordTemplates_Myntra_def
        Let_def rw filter_truthy_Cons)
qed

lemma generateListing_sameTruthy:
  assumes same: "\<And>j. sameTruthy (getProp row' j) (getProp row j)"
  shows "generateListing row' p = generateListing row p"
  by (simp only: generateListing_def templates_sameTruthy [OF same]
      js_or_sameTruthy_first [OF same] js_or_sameTruthy_second [OF same])

text \<open>
  C5. If a row maps a column to the empty string, removing that column from the row does
  not change the listing, on any platform.
\<close>

theorem generateListing_empty_as_absent:
  "row k = Some (Str []) \<Longrightarrow> generateListing (row(k := None)) p = generateListing row p"
  by (rule generateListing_sameTruthy) (rule getProp_remove_empty)

theorem generateListing_empty_as_absent_witness:
  "emptyBrandRow (jstr ''brand'') = Some (Str [])
   \<and> generateListing (emptyBrandRow(jstr ''brand'' := None)) Amazon
       = generateListing emptyBrandRow Amazon"
proof -
  have empty: "emptyBrandRow (jstr ''brand'') = Some (Str [])"
    by (simp add: emptyBrandRow_def jstr_def)
  from empty generateListing_empty_as_absent [of emptyBrandRow "jstr ''brand''" Amazon]
  show ?thesis by blast
qed

section \<open>Fixed outputs of the Meesho and Amazon templates\<close>

text \<open>
  C6. For the row with no keys and platform Meesho, the bullet list is exactly
  "Trusted quality", "Curated for your boutique", "Ships fast", and the title is exactly
  "Trendy Look - Best Seller".
\<close>

theorem meesho_empty_row_defaults:
  "bulletTemplates Meesho Map.empty =
     Inr [Str (jstr ''Trusted quality''), Str (jstr ''Curated for your boutique''),
          Str (jstr ''Ships fast'')]
   \<and> titleTemplates Meesho Map.empty = Inr (jstr ''Trendy Look - Best Seller'')"
  by (simp add: bulletTemplates_Meesho_def titleTemplates_Meesho_def meeshoHighlight_def
      meeshoDefaultBullets_def getProp_def js_or_def jstr_def)

text \<open>
  C8. For every row the Meesho description is one of two fixed strings: the one with the
  clause "Optimised margins for resellers." when \<open>margin\<close> or \<open>wholesale_price\<close> is present
  and non-empty, and otherwise the one in which the missing clause leaves two spaces.
\<close>

theorem meesho_description_exact:
  "descriptionTemplates Meesho row =
     (if truthy (getProp row ''margin'') \<or> truthy (getProp row ''wholesale_price'')
      then jstr ''Perfect addition for boutique sellers. Optimised margins for resellers. Lightweight packaging for reduced logistics cost.''
      else jstr ''Perfect addition for boutique sellers.  Lightweight packaging for reduced logistics cost.'')"
  by (simp add: descriptionTemplates_Meesho_def js_or_def jstr_def)

text \<open>The Amazon keyword template, read off the code for every row.\<close>

lemma filter_truthy_getProp:
  "filter truthy (map (getProp row) ks) = map Str (presentValues row ks)"
  by (induction ks) (auto simp: getProp_def split: option.splits jsval.splits)

lemma filter_truthy_keywordItem:
  "filter truthy (map keywordItem (map Str xs))
     = map Str (filter (\<lambda>s. s \<noteq> []) (map trim xs))"
  by (induction xs) (simp_all add: keywordItem_def js_or_def)

lemma keywordTemplates_Amazon_candidates:
  "keywordTemplates Amazon row = Inr (map Str (take 15 (amazonKeywordCandidates row)))"
proof -
  have derived: "filter truthy [getProp row ''category'', getProp row ''sub_category'',
        getProp row ''material'', getProp row ''color'', getProp row ''season'']
      = map Str (presentValues row [''category'', ''sub_category'', ''material'', ''color'',
              ''season''])"
    using filter_truthy_getProp [of row "[''category'', ''sub_category'', ''material'',
        ''color'', ''season'']"]
    by (simp del: filter.simps presentValues.simps)
  have items: "filter truthy (map keywordItem (map Str xs @ map Str ys))
      = map Str (filter (\<lambda>s. s \<noteq> []) (map trim (xs @ ys)))" for xs ys
    using filter_truthy_keywordItem [of "xs @ ys"] by simp
  have "keywordTemplates Amazon row
      = Inr (take 15 (filter truthy (map keywordItem
          (map Str (js_split commaDelim (firstNonEmpty row [''keywords'', ''search_terms''] []))
           @ map Str (presentValues row [''category'', ''sub_category'', ''material'',
               ''color'', ''season''])))))"
    unfolding keywordTemplates.simps keywordTemplates_Amazon_def Let_def chain2 derived
    by (simp only: split_m_def bind_err_def jsval.case sum.case)
  also have "\<dots> = Inr (map Str (take 15 (amazonKeywordCandidates row)))"
    by (simp only: items amazonKeywordCandidates_def take_map)
  finally show ?thesis .
qed

text \<open>
  C9. The Amazon keyword template performs no deduplication: for every row the keyword
  sequence is the first 15 of the candidates (the comma-split keywords followed by the
  present category, sub_category, material, color and season, trimmed, empties dropped),
  every occurrence kept and in that order, and the listing's SearchKeywords is that
  sequence joined with ", ". For the row \<open>{keywords: "red,red", category: "red"}\<close> the
  keyword sequence is "red" three times and SearchKeywords is "red, red, red".
\<close>

theorem amazon_keywords_not_deduplicated:
  "keywordTemplates Amazon row = Inr (map Str (take 15 (amazonKeywordCandidates row)))
   \<and> (\<exists>l. generateListing row Amazon = Inr l
          \<and> SearchKeywords l
              = Str (js_join (jstr '', '') (map Str (take 15 (amazonKeywordCandidates row)))))
   \<and> amazonKeywordCandidates redRow = [jstr ''red'', jstr ''red'', jstr ''red'']
   \<and> keywordTemplates Amazon redRow
       = Inr [Str (jstr ''red''), Str (jstr ''red''), Str (jstr ''red'')]
   \<and> (\<exists>l. generateListing redRow Amazon = Inr l
          \<and> SearchKeywords l = Str (jstr ''red, red, red''))"
proof -
  have listing: "\<exists>l. generateListing r Amazon = Inr l
          \<and> SearchKeywords l
              = Str (js_join (jstr '', '') (map Str (take 15 (amazonKeywordCandidates r))))"
    for r
  proof -
    obtain t where t: "titleTemplates Amazon r = Inr t" using titleTemplates_total by blast
    obtain b where b: "bulletTemplates Amazon r = Inr b" using bulletTemplates_total by blast
    from generateListing_Inr [OF t b keywordTemplates_Amazon_candidates] show ?thesis
      by simp
  qed
  have red: "amazonKeywordCandidates redRow = [jstr ''red'', jstr ''red'', jstr ''red'']"
    by (simp add: amazonKeywordCandidates_def redRow_def jstr_def commaDelim_def trim_def
        isWhiteSpace_def)
  have joined:
    "js_join (jstr '', '') (map Str (take 15 [jstr ''red'', jstr ''red'', jstr ''red'']))
      = jstr ''red, red, red''"
    by (simp add: jstr_def)
  have "keywordTemplates Amazon redRow
       = Inr [Str (jstr ''red''), Str (jstr ''red''), Str (jstr ''red'')]"
    using keywordTemplates_Amazon_candidates [of redRow] red by simp
  moreover have "\<exists>l. generateListing redRow Amazon = Inr l
          \<and> SearchKeywords l = Str (jstr ''red, red, red'')"
    using listing [of redRow] red joined by simp
  ultimately show ?thesis
    using keywordTemplates_Amazon_candidates [of row] listing [of row] red by blast
qed

text \<open>
  C10. The Meesho template substitutes its three default bullets exactly when the value
  resolved from highlight, Highlights, features is absent or the empty string; when that
  value is non-empty the bullets are the trimmed non-empty pieces of the split, at most
  four, even if there are none. For the row \<open>{highlight: " "}\<close> the bullet list is empty,
  BulletPoints is the empty string, and the defaults are not substituted.
\<close>

theorem meesho_defaults_only_for_empty_highlight:
  "bulletTemplates Meesho row =
     (if truthy (meeshoHighlight row)
      then Inr (map Str (take 4 (filter (\<lambda>s. s \<noteq> [])
             (map trim (js_split listDelim (toString (meeshoHighlight row)))))))
      else Inr meeshoDefaultBullets)
   \<and> truthy (meeshoHighlight blankHighlightRow)
   \<and> bulletTemplates Meesho blankHighlightRow = Inr []
   \<and> bulletTemplates Meesho blankHighlightRow \<noteq> Inr meeshoDefaultBullets
   \<and> (\<exists>l. generateListing blankHighlightRow Meesho = Inr l \<and> BulletPoints l = Str [])"
proof -
  have general: "bulletTemplates Meesho row =
     (if truthy (meeshoHighlight row)
      then Inr (map Str (take 4 (filter (\<lambda>s. s \<noteq> [])
             (map trim (js_split listDelim (toString (meeshoHighlight row)))))))
      else Inr meeshoDefaultBullets)"
    by (cases "meeshoHighlight row")
       (simp_all add: bulletTemplates_Meesho_def split_m_def bind_err_def)
  have blank: "meeshoHighlight blankHighlightRow = Str (jstr '' '')"
    by (simp add: meeshoHighlight_def blankHighlightRow_def getProp_def js_or_def jstr_def)
  have bullets: "bulletTemplates Meesho blankHighlightRow = Inr []"
    by (simp add: bulletTemplates_Meesho_def blank split_m_def bind_err_def jstr_def
        listDelim_def trim_def isWhiteSpace_def)
  have title: "\<exists>t. titleTemplates Meesho blankHighlightRow = Inr t"
    by (rule titleTemplates_total)
  have kws: "\<exists>k. keywordTemplates Meesho blankHighlightRow = Inr k"
    by (rule keywordTemplates_total)
  from title kws obtain t k where
    "titleTemplates Meesho blankHighlightRow = Inr t"
    "keywordTemplates Meesho blankHighlightRow = Inr k"
    by blast
  from generateListing_Inr [OF this(1) bullets this(2)]
  have listing: "\<exists>l. generateListing blankHighlightRow Meesho = Inr l \<and> BulletPoints l = Str []"
    by simp
  show ?thesis
    using general blank bullets listing by (simp add: meeshoDefaultBullets_def jstr_def)
qed

section \<open>The cross product and the store\<close>

lemma upt_Cons_next: "n # [Suc n ..< Suc n + k] = [n ..< n + Suc k]"
  by (simp add: upt_conv_Cons del: upt_Suc)

lemma upt_append_next: "[n ..< n + a] @ [n + a ..< n + a + b] = [n ..< n + (a + b)]"
  using upt_add_eq_append [of n "n + a" b] by (simp add: add.assoc)

lemma cross_index:
  assumes i: "i < (r::nat)" and j: "j < p"
  shows "i * p + j < r * p"
proof -
  have "i * p + j < i * p + p" using j by simp
  also have "\<dots> = Suc i * p" by simp
  also have "\<dots> \<le> r * p" using i by (intro mult_le_mono1) simp
  finally show ?thesis .
qed

lemma mergedRecord_total: "\<exists>ob. mergedRecord row p = Inr ob"
  using generateListing_total [of row p] by (auto simp: mergedRecord_def bind_err_def)

lemma mergedRecord_Inr:
  "mergedRecord row p = Inr ob \<Longrightarrow>
     \<exists>l. generateListing row p = Inr l \<and> ob = row ++ listingProps l"
  by (auto simp: mergedRecord_def bind_err_def split: sum.splits)

lemma merged_other_columns:
  "k \<notin> set computedFields \<Longrightarrow> (row ++ listingProps l) k = row k"
  by (simp add: computedFields_def listingProps_def map_add_def)

lemma merged_computed_columns:
  "(row ++ listingProps l) (jstr ''Platform'') = Some (Platform l)"
  "(row ++ listingProps l) (jstr ''Title'') = Some (Title l)"
  "(row ++ listingProps l) (jstr ''BulletPoints'') = Some (BulletPoints l)"
  "(row ++ listingProps l) (jstr ''Description'') = Some (Description l)"
  "(row ++ listingProps l) (jstr ''SearchKeywords'') = Some (SearchKeywords l)"
  "(row ++ listingProps l) (jstr ''Price'') = Some (Price l)"
  "(row ++ listingProps l) (jstr ''SKU'') = Some (SKU l)"
  "(row ++ listingProps l) (jstr ''HSN'') = Some (HSN l)"
  by (simp_all add: listingProps_def map_add_def jstr_def)

text \<open>
  One row: the new records take the next references in platform order, and no object that
  existed before is written.
\<close>

lemma expandRow_spec:
  assumes "row < next_ref h"
  shows "\<exists>h'. expandRow row ps h = Inr ([next_ref h ..< next_ref h + length ps], h')
     \<and> next_ref h' = next_ref h + length ps
     \<and> (\<forall>a < next_ref h. objs h' a = objs h a)
     \<and> (\<forall>j < length ps.
           mergedRecord (objs h row) (ps ! j) = Inr (objs h' (next_ref h + j)))"
  using assms
proof (induction ps arbitrary: h)
  case Nil
  show ?case by simp
next
  case (Cons p ps)
  obtain ob where ob: "mergedRecord (objs h row) p = Inr ob"
    using mergedRecord_total by blast
  define h1 where "h1 = h\<lparr>objs := (objs h)(next_ref h := ob), next_ref := Suc (next_ref h)\<rparr>"
  have h1: "next_ref h1 = Suc (next_ref h)" "objs h1 = (objs h)(next_ref h := ob)"
    by (simp_all add: h1_def)
  have "row < next_ref h1" using Cons.prems h1 by simp
  from Cons.IH [OF this] obtain h' where
    run: "expandRow row ps h1 = Inr ([next_ref h1 ..< next_ref h1 + length ps], h')"
    and nxt: "next_ref h' = next_ref h1 + length ps"
    and frame: "\<forall>a < next_ref h1. objs h' a = objs h1 a"
    and recs: "\<forall>j < length ps.
           mergedRecord (objs h1 row) (ps ! j) = Inr (objs h' (next_ref h1 + j))"
    by blast
  have row_same: "objs h1 row = objs h row" using Cons.prems h1 by simp
  have "expandRow row (p # ps) h
      = Inr (next_ref h # [next_ref h1 ..< next_ref h1 + length ps], h')"
    using ob run by (simp add: bind_err_def alloc_def h1_def)
  moreover have "next_ref h # [next_ref h1 ..< next_ref h1 + length ps]
      = [next_ref h ..< next_ref h + length (p # ps)]"
    using h1 upt_Cons_next [of "next_ref h" "length ps"] by simp
  moreover have "next_ref h' = next_ref h + length (p # ps)" using nxt h1 by simp
  moreover have "\<forall>a < next_ref h. objs h' a = objs h a"
    using frame h1 by simp
  moreover have "\<forall>j < length (p # ps).
      mergedRecord (objs h row) ((p # ps) ! j) = Inr (objs h' (next_ref h + j))"
  proof (intro allI impI)
    fix j assume j: "j < length (p # ps)"
    show "mergedRecord (objs h row) ((p # ps) ! j) = Inr (objs h' (next_ref h + j))"
    proof (cases j)
      case 0
      have "objs h' (next_ref h) = ob" using frame h1 by simp
      with 0 ob show ?thesis by simp
    next
      case (Suc j')
      with j recs row_same h1 show ?thesis by simp
    qed
  qed
  ultimately show ?case by simp
qed

text \<open>All rows: the same, row after row.\<close>

lemma enrichCatalog_spec:
  assumes "\<forall>r \<in> set rows. r < next_ref h"
  shows "\<exists>h'. enrichCatalog rows ps h
       = Inr ([next_ref h ..< next_ref h + length rows * length ps], h')
     \<and> next_ref h' = next_ref h + length rows * length ps
     \<and> (\<forall>a < next_ref h. objs h' a = objs h a)
     \<and> (\<forall>i < length rows. \<forall>j < length ps.
           mergedRecord (objs h (rows ! i)) (ps ! j)
             = Inr (objs h' (next_ref h + i * length ps + j)))"
  using assms
proof (induction rows arbitrary: h)
  case Nil
  show ?case by simp
next
  case (Cons row rows)
  have "row < next_ref h" using Cons.prems by simp
  from expandRow_spec [OF this, of ps] obtain h1 where
    run1: "expandRow row ps h = Inr ([next_ref h ..< next_ref h + length ps], h1)"
    and nxt1: "next_ref h1 = next_ref h + length ps"
    and frame1: "\<forall>a < next_ref h. objs h1 a = objs h a"
    and recs1: "\<forall>j < length ps.
           mergedRecord (objs h row) (ps ! j) = Inr (objs h1 (next_ref h + j))"
    by blast
  have "\<forall>r \<in> set rows. r < next_ref h1" using Cons.prems nxt1 by auto
  from Cons.IH [OF this] obtain h' where
    run2: "enrichCatalog rows ps h1
       = Inr ([next_ref h1 ..< next_ref h1 + length rows * length ps], h')"
    and nxt2: "next_ref h' = next_ref h1 + length rows * length ps"
    and frame2: "\<forall>a < next_ref h1. objs h' a = objs h1 a"
    and recs2: "\<forall>i < length rows. \<forall>j < length ps.
           mergedRecord (objs h1 (rows ! i)) (ps ! j)
             = Inr (objs h' (next_ref h1 + i * length ps + j))"
    by blast
  have refs: "[next_ref h ..< next_ref h + length ps]
        @ [next_ref h1 ..< next_ref h1 + length rows * length ps]
      = [next_ref h ..< next_ref h + length (row # rows) * length ps]"
    using nxt1 upt_append_next [of "next_ref h" "length ps" "length rows * length ps"]
    by simp
  have "enrichCatalog (row # rows) ps h
      = Inr ([next_ref h ..< next_ref h + length (row # rows) * length ps], h')"
    using run1 run2 refs by (simp add: bind_err_def)
  moreover have "next_ref h' = next_ref h + length (row # rows) * length ps"
    using nxt1 nxt2 by simp
  moreover have frame: "\<forall>a < next_ref h. objs h' a = objs h a"
    using frame1 frame2 nxt1 by simp
  moreover have "\<forall>i < length (row # rows). \<forall>j < length ps.
           mergedRecord (objs h ((row # rows) ! i)) (ps ! j)
             = Inr (objs h' (next_ref h + i * length ps + j))"
  proof (intro allI impI)
    fix i j assume i: "i < length (row # rows)" and j: "j < length ps"
    show "mergedRecord (objs h ((row # rows) ! i)) (ps ! j)
             = Inr (objs h' (next_ref h + i * length ps + j))"
    proof (cases i)
      case 0
      have "objs h' (next_ref h + j) = objs h1 (next_ref h + j)"
        using frame2 nxt1 j by simp
      with 0 recs1 j show ?thesis by simp
    next
      case (Suc i')
      then have i': "i' < length rows" using i by simp
      then have "rows ! i' < next_ref h" using Cons.prems by simp
      then have "objs h1 (rows ! i') = objs h (rows ! i')" using frame1 by simp
      moreover have "next_ref h1 + i' * length ps + j = next_ref h + i * length ps + j"
        using nxt1 Suc by simp
      moreover have "mergedRecord (objs h1 (rows ! i')) (ps ! j)
          = Inr (objs h' (next_ref h1 + i' * length ps + j))"
        using recs2 i' j by blast
      ultimately show ?thesis using Suc by (simp add: add.assoc)
    qed
  qed
  ultimately show ?case by simp
qed

text \<open>
  C1. For rows that are references to existing objects and any list of platforms,
  \<open>enrichCatalog\<close> returns exactly \<open>rows.length * platforms.length\<close> records; the record at
  position \<open>i * platforms.length + j\<close> is the merged record of row \<open>i\<close> and platform \<open>j\<close>, so
  the expansions of one row are contiguous, rows in their order and platforms in theirs; and
  the result is empty exactly when there are no rows or no platforms.
\<close>

theorem enrichCatalog_cross_product:
  assumes "\<forall>r \<in> set rows. r < next_ref h"
  shows "\<exists>refs h'. enrichCatalog rows platforms h = Inr (refs, h')
     \<and> length refs = length rows * length platforms
     \<and> (\<forall>i < length rows. \<forall>j < length platforms.
           mergedRecord (objs h (rows ! i)) (platforms ! j)
             = Inr (objs h' (refs ! (i * length platforms + j))))
     \<and> (refs = []) = (rows = [] \<or> platforms = [])"
proof -
  let ?n = "length rows * length platforms"
  from enrichCatalog_spec [OF assms, of platforms] obtain h' where
    run: "enrichCatalog rows platforms h = Inr ([next_ref h ..< next_ref h + ?n], h')"
    and recs: "\<forall>i < length rows. \<forall>j < length platforms.
           mergedRecord (objs h (rows ! i)) (platforms ! j)
             = Inr (objs h' (next_ref h + i * length platforms + j))"
    by blast
  have "\<forall>i < length rows. \<forall>j < length platforms.
           mergedRecord (objs h (rows ! i)) (platforms ! j)
             = Inr (objs h' ([next_ref h ..< next_ref h + ?n] ! (i * length platforms + j)))"
    using recs cross_index by (simp add: add.assoc)
  moreover have "([next_ref h ..< next_ref h + ?n] = []) = (rows = [] \<or> platforms = [])"
    by auto
  ultimately show ?thesis using run by simp
qed

theorem enrichCatalog_cross_product_witness:
  "0 < next_ref sampleHeap
   \<and> (\<exists>refs h'. enrichCatalog [0] [Meesho, Amazon] sampleHeap = Inr (refs, h')
        \<and> length refs = 2
        \<and> mergedRecord redRow Meesho = Inr (objs h' (refs ! 0))
        \<and> mergedRecord redRow Amazon = Inr (objs h' (refs ! 1)))"
proof -
  have allocated: "0 < next_ref sampleHeap"
    by (simp add: sampleHeap_def)
  then have valid: "\<forall>r \<in> set [0]. r < next_ref sampleHeap"
    by simp
  from enrichCatalog_cross_product [OF valid, of "[Meesho, Amazon]"] obtain refs h' where
    run: "enrichCatalog [0] [Meesho, Amazon] sampleHeap = Inr (refs, h')"
    and len: "length refs = 2"
    and recs: "\<forall>i < length [0::nat]. \<forall>j < length [Meesho, Amazon].
           mergedRecord (objs sampleHeap ([0] ! i)) ([Meesho, Amazon] ! j)
             = Inr (objs h' (refs ! (i * length [Meesho, Amazon] + j)))"
    by auto
  have row: "objs sampleHeap 0 = redRow" by (simp add: sampleHeap_def)
  have m0: "mergedRecord redRow Meesho = Inr (objs h' (refs ! 0))"
    using recs [rule_format, of 0 0] row by simp
  have m1: "mergedRecord redRow Amazon = Inr (objs h' (refs ! 1))"
    using recs [rule_format, of 0 1] row by simp
  from allocated run len m0 m1 show ?thesis by blast
qed

text \<open>
  C7. For rows that are references to existing objects, every merged record that
  \<open>enrichCatalog\<close> produces has every column of its row; a column that is not one of the
  eight computed names keeps the row's value; each of the eight computed names maps to the
  computed value, whatever the row held under that name; the merged record is a new object,
  not the row; and every input row holds after the call what it held before.
\<close>

theorem enrichCatalog_merge_and_frame:
  assumes "\<forall>r \<in> set rows. r < next_ref h"
  shows "\<exists>refs h'. enrichCatalog rows platforms h = Inr (refs, h')
     \<and> (\<forall>i < length rows. \<forall>j < length platforms.
          \<exists>l. generateListing (objs h (rows ! i)) (platforms ! j) = Inr l
            \<and> dom (objs h (rows ! i)) \<subseteq> dom (objs h' (refs ! (i * length platforms + j)))
            \<and> (\<forall>k. k \<notin> set computedFields \<longrightarrow>
                  objs h' (refs ! (i * length platforms + j)) k = objs h (rows ! i) k)
            \<and> objs h' (refs ! (i * length platforms + j)) (jstr ''Platform'')
                = Some (Platform l)
            \<and> objs h' (refs ! (i * length platforms + j)) (jstr ''Title'')
                = Some (Title l)
            \<and> objs h' (refs ! (i * length platforms + j)) (jstr ''BulletPoints'')
                = Some (BulletPoints l)
            \<and> objs h' (refs ! (i * length platforms + j)) (jstr ''Description'')
                = Some (Description l)
            \<and> objs h' (refs ! (i * length platforms + j)) (jstr ''SearchKeywords'')
                = Some (SearchKeywords l)
            \<and> objs h' (refs ! (i * length platforms + j)) (jstr ''Price'')
                = Some (Price l)
            \<and> objs h' (refs ! (i * length platforms + j)) (jstr ''SKU'')
                = Some (SKU l)
            \<and> objs h' (refs ! (i * length platforms + j)) (jstr ''HSN'')
                = Some (HSN l)
            \<and> refs ! (i * length platforms + j) \<notin> set rows)
     \<and> (\<forall>r \<in> set rows. objs h' r = objs h r)"
proof -
  let ?n = "length rows * length platforms"
  let ?refs = "[next_ref h ..< next_ref h + ?n]"
  from enrichCatalog_spec [OF assms, of platforms] obtain h' where
    run: "enrichCatalog rows platforms h = Inr (?refs, h')"
    and frame: "\<forall>a < next_ref h. objs h' a = objs h a"
    and recs: "\<forall>i < length rows. \<forall>j < length platforms.
           mergedRecord (objs h (rows ! i)) (platforms ! j)
             = Inr (objs h' (next_ref h + i * length platforms + j))"
    by blast
  have each: "\<exists>l. generateListing (objs h (rows ! i)) (platforms ! j) = Inr l
            \<and> dom (objs h (rows ! i)) \<subseteq> dom (objs h' (?refs ! (i * length platforms + j)))
            \<and> (\<forall>k. k \<notin> set computedFields \<longrightarrow>
                  objs h' (?refs ! (i * length platforms + j)) k = objs h (rows ! i) k)
            \<and> objs h' (?refs ! (i * length platforms + j)) (jstr ''Platform'')
                = Some (Platform l)
            \<and> objs h' (?refs ! (i * length platforms + j)) (jstr ''Title'')
                = Some (Title l)
            \<and> objs h' (?refs ! (i * length platforms + j)) (jstr ''BulletPoints'')
                = Some (BulletPoints l)
            \<and> objs h' (?refs ! (i * length platforms + j)) (jstr ''Description'')
                = Some (Description l)
            \<and> objs h' (?refs ! (i * length platforms + j)) (jstr ''SearchKeywords'')
                = Some (SearchKeywords l)
            \<and> objs h' (?refs ! (i * length platforms + j)) (jstr ''Price'')
                = Some (Price l)
            \<and> objs h' (?refs ! (i * length platforms + j)) (jstr ''SKU'')
                = Some (SKU l)
            \<and> objs h' (?refs ! (i * length platforms + j)) (jstr ''HSN'')
                = Some (HSN l)
            \<and> ?refs ! (i * length platforms + j) \<notin> set rows"
    if i: "i < length rows" and j: "j < length platforms" for i j
  proof -
    have idx: "?refs ! (i * length platforms + j) = next_ref h + i * length platforms + j"
      using cross_index [OF i j] by (simp add: add.assoc)
    have "mergedRecord (objs h (rows ! i)) (platforms ! j)
        = Inr (objs h' (next_ref h + i * length platforms + j))"
      using recs i j by blast
    from mergedRecord_Inr [OF this] obtain l where
      l: "generateListing (objs h (rows ! i)) (platforms ! j) = Inr l"
      and ob: "objs h' (next_ref h + i * length platforms + j)
          = objs h (rows ! i) ++ listingProps l"
      by blast
    have fresh: "next_ref h + i * length platforms + j \<notin> set rows"
      using assms by auto
    show ?thesis
      unfolding idx ob
      using l fresh merged_other_columns merged_computed_columns by auto
  qed
  have "\<forall>r \<in> set rows. objs h' r = objs h r"
    using frame assms by simp
  with run each show ?thesis by blast
qed

theorem enrichCatalog_merge_and_frame_witness:
  "0 < next_ref sampleHeap
   \<and> (\<exists>refs h'. enrichCatalog [0] [Meesho, Amazon] sampleHeap = Inr (refs, h')
        \<and> objs h' (refs ! 1) (jstr ''keywords'') = Some (Str (jstr ''red,red''))
        \<and> objs h' (refs ! 1) (jstr ''Platform'') = Some (Str (jstr ''Amazon''))
        \<and> refs ! 1 \<noteq> 0
        \<and> objs h' 0 = redRow)"
proof -
  have allocated: "0 < next_ref sampleHeap"
    by (simp add: sampleHeap_def)
  then have valid: "\<forall>r \<in> set [0]. r < next_ref sampleHeap"
    by simp
  from enrichCatalog_merge_and_frame [OF valid, of "[Meesho, Amazon]"] obtain refs h' where
    run: "enrichCatalog [0] [Meesho, Amazon] sampleHeap = Inr (refs, h')"
    and recs: "\<forall>i < length [0::nat]. \<forall>j < length [Meesho, Amazon].
          \<exists>l. generateListing (objs sampleHeap ([0] ! i)) ([Meesho, Amazon] ! j) = Inr l
            \<and> dom (objs sampleHeap ([0] ! i))
                \<subseteq> dom (objs h' (refs ! (i * length [Meesho, Amazon] + j)))
            \<and> (\<forall>k. k \<notin> set computedFields \<longrightarrow>
                  objs h' (refs ! (i * length [Meesho, Amazon] + j)) k
                    = objs sampleHeap ([0] ! i) k)
            \<and> objs h' (refs ! (i * length [Meesho, Amazon] + j)) (jstr ''Platform'')
                = Some (Platform l)
            \<and> objs h' (refs ! (i * length [Meesho, Amazon] + j)) (jstr ''Title'')
                = Some (Title l)
            \<and> objs h' (refs ! (i * length [Meesho, Amazon] + j)) (jstr ''BulletPoints'')
                = Some (BulletPoints l)
            \<and> objs h' (refs ! (i * length [Meesho, Amazon] + j)) (jstr ''Description'')
                = Some (Description l)
            \<and> objs h' (refs ! (i * length [Meesho, Amazon] + j)) (jstr ''SearchKeywords'')
                = Some (SearchKeywords l)
            \<and> objs h' (refs ! (i * length [Meesho, Amazon] + j)) (jstr ''Price'')
                = Some (Price l)
            \<and> objs h' (refs ! (i * length [Meesho, Amazon] + j)) (jstr ''SKU'')
                = Some (SKU l)
            \<and> objs h' (refs ! (i * length [Meesho, Amazon] + j)) (jstr ''HSN'')
                = Some (HSN l)
            \<and> refs ! (i * length [Meesho, Amazon] + j) \<notin> set [0]"
    and frame: "\<forall>r \<in> set [0::nat]. objs h' r = objs sampleHeap r"
    by blast
  have row: "objs sampleHeap 0 = redRow" by (simp add: sampleHeap_def)
  from recs [rule_format, of 0 1] obtain l where
    l: "generateListing redRow Amazon = Inr l"
    and other: "\<forall>k. k \<notin> set computedFields \<longrightarrow> objs h' (refs ! 1) k = redRow k"
    and platform: "objs h' (refs ! 1) (jstr ''Platform'') = Some (Platform l)"
    and fresh: "refs ! 1 \<noteq> 0"
    using row by auto
  have "jstr ''keywords'' \<notin> set computedFields"
    by (simp add: computedFields_def jstr_def)
  with other have "objs h' (refs ! 1) (jstr ''keywords'') = redRow (jstr ''keywords'')"
    by blast
  then have kw: "objs h' (refs ! 1) (jstr ''keywords'') = Some (Str (jstr ''red,red''))"
    by (simp add: redRow_def jstr_def)
  obtain t b k where "titleTemplates Amazon redRow = Inr t"
    "bulletTemplates Amazon redRow = Inr b" "keywordTemplates Amazon redRow = Inr k"
    using titleTemplates_total bulletTemplates_total keywordTemplates_total by metis
  from generateListing_Inr [OF this] l have "Platform l = Str (jstr ''Amazon'')"
    by auto
  with platform have pf: "objs h' (refs ! 1) (jstr ''Platform'') = Some (Str (jstr ''Amazon''))"
    by simp
  have "objs h' 0 = redRow" using frame row by simp
  with allocated run kw pf fresh show ?thesis by blast
qed

end
